theory Spec2Isabelle
  imports Main
begin

section \<open>JavaScript values\<close>

text \<open>
  The values that reach the contract: transaction arguments, object properties and the
  numbers built from them. \<open>Num n\<close> is the JavaScript number whose value is the integer
  \<open>n\<close>; \<open>NaN\<close> is the number that \<open>parseInt\<close> returns when nothing can be parsed.
\<close>

datatype jsval = Undefined | Null | NaN | Num int | Str string

text \<open>\<open>a === b\<close>: equal values of the same type; \<open>NaN\<close> is equal to nothing.\<close>

definition strict_eq :: "jsval \<Rightarrow> jsval \<Rightarrow> bool" where
  "strict_eq a b = (a = b \<and> a \<noteq> NaN)"

text \<open>An object literal is the list of its properties; reading a property that the
  object does not have gives \<open>undefined\<close>.\<close>

type_synonym jsobject = "(string \<times> jsval) list"

definition property :: "jsobject \<Rightarrow> string \<Rightarrow> jsval" where
  "property obj name = (case map_of obj name of None \<Rightarrow> Undefined | Some v \<Rightarrow> v)"

subsection \<open>parseInt\<close>

text \<open>
  \<open>parseInt(v)\<close> with no radix: the argument is turned into a string, leading white space
  is dropped, an optional sign is read, a prefix \<open>0x\<close> or \<open>0X\<close> selects radix 16
  (radix 10 otherwise), and the longest run of digits of that radix is the value. With no
  digit the result is \<open>NaN\<close>. Strings are ASCII here; the result is the exact integer
  (JavaScript rounds it to a double beyond \<open>2 ^ 53\<close>).
\<close>

definition isWhiteSpace :: "char \<Rightarrow> bool" where
  "isWhiteSpace c = (of_char c \<in> {9, 10, 11, 12, 13, 32 :: nat})"

definition digitValue :: "char \<Rightarrow> nat option" where
  "digitValue c =
     (let n = (of_char c :: nat) in
      if 48 \<le> n \<and> n \<le> 57 then Some (n - 48)
      else if 97 \<le> n \<and> n \<le> 122 then Some (n - 87)
      else if 65 \<le> n \<and> n \<le> 90 then Some (n - 55)
      else None)"

definition isDigitOf :: "nat \<Rightarrow> char \<Rightarrow> bool" where
  "isDigitOf radix c = (case digitValue c of None \<Rightarrow> False | Some d \<Rightarrow> d < radix)"

definition digitsValue :: "nat \<Rightarrow> string \<Rightarrow> int" where
  "digitsValue radix z =
     foldl (\<lambda>acc c. acc * int radix + int (case digitValue c of None \<Rightarrow> 0 | Some d \<Rightarrow> d)) 0 z"

definition parseIntString :: "string \<Rightarrow> jsval" where
  "parseIntString inputString =
     (let s = dropWhile isWhiteSpace inputString;
          sign = (case s of c # _ \<Rightarrow> if c = CHR ''-'' then - 1 else 1 | [] \<Rightarrow> (1 :: int));
          s = (case s of c # rest \<Rightarrow> if c = CHR ''-'' \<or> c = CHR ''+'' then rest else s | [] \<Rightarrow> s);
          radix = (case s of c # d # _ \<Rightarrow>
                     if c = CHR ''0'' \<and> (d = CHR ''x'' \<or> d = CHR ''X'') then 16 else 10
                   | _ \<Rightarrow> (10 :: nat));
          s = (if radix = 16 then drop 2 s else s);
          z = takeWhile (isDigitOf radix) s
      in if z = [] then NaN else Num (sign * digitsValue radix z))"

fun parseInt :: "jsval \<Rightarrow> jsval" where
  "parseInt (Str s) = parseIntString s"
| "parseInt (Num n) = Num n"
| "parseInt Undefined = NaN"
| "parseInt Null = NaN"
| "parseInt NaN = NaN"

section \<open>The material contract entity (material.js)\<close>

text \<open>The enumeration \<open>cmState\<close>.\<close>

definition cmState_ISSUED :: jsval where "cmState_ISSUED = Num 1"
definition cmState_TRADING :: jsval where "cmState_TRADING = Num 2"
definition cmState_SIGNED :: jsval where "cmState_SIGNED = Num 3"

text \<open>
  A \<open>MaterialContract\<close> object: the two properties of the base class \<open>State\<close> that the
  constructor passes to \<open>super\<close> (the class name and the key), the lifecycle state, the
  five properties of the object that \<open>createInstance\<close> builds, and the two that
  \<open>setOwnerMSP\<close> and \<open>setOwner\<close> add.
\<close>

record MaterialContract =
  stateClass :: string
  key :: "jsval list"
  currentState :: jsval
  issuer :: jsval
  materialNumber :: jsval
  matetialType :: jsval
  arrivalTime :: jsval
  rewardValue :: jsval
  mspid :: jsval
  owner :: jsval

definition getClass :: string where
  "getClass = ''org.materialnet.materialcontract''"

text \<open>
  Modelled from the spec: \<open>State.makeKey\<close> (ledger-api/state.js) is not among the sources.
  The spec's composite key is the ordered list of key attributes, and the list can be
  read back from the key, so the key of an entity is represented by that list itself; the
  name space is added by the store (\<open>CompositeKey_build\<close> below).
\<close>

definition makeKey :: "jsval list \<Rightarrow> jsval list" where
  "makeKey keyParts = keyParts"

text \<open>
  The constructor: \<open>super(MaterialContract.getClass(), [obj.issuer, obj.number])\<close>, then
  \<open>Object.assign(this, obj)\<close>. The key parts are the properties named \<open>issuer\<close> and
  \<open>number\<close> of \<open>obj\<close>. The constructor of \<open>State\<close> (ledger-api/state.js, not among
  the sources) is taken to record the class name and the key made of the key parts; every
  other property is as \<open>Object.assign\<close> copies it from \<open>obj\<close>. The objects built here
  have no property named \<open>class\<close> or \<open>key\<close>, so the assignment leaves those two as
  \<open>super\<close> set them.
\<close>

definition MaterialContract_new :: "jsobject \<Rightarrow> MaterialContract" where
  "MaterialContract_new obj =
     \<lparr> stateClass = getClass,
       key = makeKey [property obj ''issuer'', property obj ''number''],
       currentState = property obj ''currentState'',
       issuer = property obj ''issuer'',
       materialNumber = property obj ''materialNumber'',
       matetialType = property obj ''matetialType'',
       arrivalTime = property obj ''arrivalTime'',
       rewardValue = property obj ''rewardValue'',
       mspid = property obj ''mspid'',
       owner = property obj ''owner'' \<rparr>"

definition createInstance :: "jsval \<Rightarrow> jsval \<Rightarrow> jsval \<Rightarrow> jsval \<Rightarrow> jsval \<Rightarrow> MaterialContract" where
  "createInstance issuer' materialNumber' matetialType' arrivalTime' rewardValue' =
     MaterialContract_new
       [(''issuer'', issuer'),
        (''materialNumber'', materialNumber'),
        (''matetialType'', matetialType'),
        (''arrivalTime'', arrivalTime'),
        (''rewardValue'', rewardValue')]"

definition getIssuer :: "MaterialContract \<Rightarrow> jsval" where
  "getIssuer this = issuer this"

definition getOwner :: "MaterialContract \<Rightarrow> jsval" where
  "getOwner this = owner this"

definition setOwnerMSP :: "MaterialContract \<Rightarrow> jsval \<Rightarrow> MaterialContract" where
  "setOwnerMSP this mspid' = this\<lparr>mspid := mspid'\<rparr>"

definition getOwnerMSP :: "MaterialContract \<Rightarrow> jsval" where
  "getOwnerMSP this = mspid this"

definition setOwner :: "MaterialContract \<Rightarrow> jsval \<Rightarrow> MaterialContract" where
  "setOwner this newOwner = this\<lparr>owner := newOwner\<rparr>"

definition setIssued :: "MaterialContract \<Rightarrow> MaterialContract" where
  "setIssued this = this\<lparr>currentState := cmState_ISSUED\<rparr>"

definition setTrading :: "MaterialContract \<Rightarrow> MaterialContract" where
  "setTrading this = this\<lparr>currentState := cmState_TRADING\<rparr>"

definition setSigned :: "MaterialContract \<Rightarrow> MaterialContract" where
  "setSigned this = this\<lparr>currentState := cmState_SIGNED\<rparr>"

definition isIssued :: "MaterialContract \<Rightarrow> bool" where
  "isIssued this = strict_eq (currentState this) cmState_ISSUED"

definition isTrading :: "MaterialContract \<Rightarrow> bool" where
  "isTrading this = strict_eq (currentState this) cmState_TRADING"

definition isSigned :: "MaterialContract \<Rightarrow> bool" where
  "isSigned this = strict_eq (currentState this) cmState_SIGNED"

text \<open>
  \<open>toBuffer\<close>: the bytes of \<open>JSON.stringify(this)\<close>. The buffer is represented by the
  object that the JSON text denotes: JSON has no \<open>NaN\<close> and writes \<open>null\<close> for it, and
  a property whose value is \<open>undefined\<close> is left out (reading it back gives
  \<open>undefined\<close> again).
\<close>

datatype buffer = Buffer MaterialContract

definition jsonValue :: "jsval \<Rightarrow> jsval" where
  "jsonValue v = (if v = NaN then Null else v)"

definition toBuffer :: "MaterialContract \<Rightarrow> buffer" where
  "toBuffer this =
     Buffer (this\<lparr> currentState := jsonValue (currentState this),
                   issuer := jsonValue (issuer this),
                   materialNumber := jsonValue (materialNumber this),
                   matetialType := jsonValue (matetialType this),
                   arrivalTime := jsonValue (arrivalTime this),
                   rewardValue := jsonValue (rewardValue this),
                   mspid := jsonValue (mspid this),
                   owner := jsonValue (owner this) \<rparr>)"

section \<open>Errors\<close>

text \<open>
  The failures of an invocation, named as the spec's taxonomy names them. The contract
  throws \<open>Error\<close> objects that differ by their message only; the constructor says which
  \<open>throw\<close> is meant:
  \<^item> \<open>OwnershipMismatch\<close>: selectContract, "is not owned by";
  \<^item> \<open>InvalidState\<close>: selectContract, "is not trading. Current state =", and
    signContract, "organisation does not currently own materialContract";
  \<^item> \<open>AlreadySigned\<close>: signContract, "has already been signed";
  \<^item> \<open>Unauthorized\<close>: signContract, "is not the authorised owning Organisation";
  \<^item> \<open>UnknownNamedQuery\<close>: queryNamed, "invalid named query supplied";
  \<^item> \<open>TypeError name\<close>: the call of a property \<open>name\<close> that the object does not have
    ("is not a function");
  \<^item> \<open>InvalidKeyAttribute\<close>, \<open>DuplicateKey\<close>, \<open>NotFound\<close>: the store;
  \<^item> \<open>InvalidArgument\<close>: the spec's kind for malformed input.
\<close>

datatype error =
    InvalidArgument
  | InvalidKeyAttribute
  | DuplicateKey
  | NotFound
  | OwnershipMismatch
  | InvalidState
  | AlreadySigned
  | Unauthorized
  | UnknownNamedQuery
  | TypeError string

section \<open>The transaction context and the list of contracts\<close>

text \<open>
  The world state of the ledger maps a composite key, the name space of the list together
  with the key of the entity, to the entity stored there.
\<close>

type_synonym world = "(string \<times> jsval list) \<rightharpoonup> MaterialContract"

text \<open>
  What a transaction sees of its context: the organisation of the caller
  (\<open>ctx.clientIdentity.getMSPID()\<close>) and the ledger behind \<open>ctx.materialContractList\<close>.
  The spec's key builder refuses an attribute that is empty or that contains the reserved
  delimiter, and names neither the delimiter nor the text of an attribute that is not a
  string; \<open>validAttribute\<close> is that test, as the host ledger applies it.
\<close>

record Context =
  clientMSPID :: string
  validAttribute :: "jsval \<Rightarrow> bool"
  worldState :: world

definition getMSPID :: "Context \<Rightarrow> jsval" where
  "getMSPID ctx = Str (clientMSPID ctx)"

text \<open>The name that the constructor of \<open>ContractList\<close> passes to \<open>StateList\<close>.\<close>

definition listName :: string where
  "listName = ''org.materialnet.materialcontractlist''"

text \<open>
  Modelled from the spec: \<open>StateList\<close> (ledger-api/statelist.js) is not among the sources.
  \<open>CompositeKey.build(namespace, attributes)\<close> joins the name space and the attributes and
  fails with \<open>InvalidKeyAttribute\<close> if an attribute is refused.
\<close>

definition CompositeKey_build :: "Context \<Rightarrow> string \<Rightarrow> jsval list \<Rightarrow> error + (string \<times> jsval list)" where
  "CompositeKey_build ctx ns attrs =
     (if list_all (validAttribute ctx) attrs then Inr (ns, attrs) else Inl InvalidKeyAttribute)"

text \<open>
  Modelled from the spec: \<open>EntityStore.create\<close>, which \<open>ContractList\<close> calls as
  \<open>addState\<close>. It computes the key from the key attributes of the entity, fails with
  \<open>DuplicateKey\<close> if an entry exists at that key, and writes the entity otherwise. The
  codec gives back the entity it encoded, so the world state holds the entity.
\<close>

definition addState :: "Context \<Rightarrow> MaterialContract \<Rightarrow> error + world" where
  "addState ctx state =
     (case CompositeKey_build ctx listName (key state) of
        Inl e \<Rightarrow> Inl e
      | Inr k \<Rightarrow>
          (case worldState ctx k of
             Some _ \<Rightarrow> Inl DuplicateKey
           | None \<Rightarrow> Inr ((worldState ctx)(k \<mapsto> state))))"

text \<open>
  Modelled from the spec: \<open>EntityStore.read\<close>, called as \<open>getState\<close>. It fails with
  \<open>NotFound\<close> if no entry exists at the key and returns the decoded entity otherwise.
\<close>

definition getState :: "Context \<Rightarrow> jsval list \<Rightarrow> error + MaterialContract" where
  "getState ctx k =
     (case CompositeKey_build ctx listName k of
        Inl e \<Rightarrow> Inl e
      | Inr ledgerKey \<Rightarrow>
          (case worldState ctx ledgerKey of
             None \<Rightarrow> Inl NotFound
           | Some state \<Rightarrow> Inr state))"

text \<open>
  Modelled from the spec: \<open>EntityStore.update\<close>, called as \<open>updateState\<close>. It recomputes
  the key from the key attributes of the entity, fails with \<open>NotFound\<close> if no prior entry
  exists, and overwrites the entry otherwise.
\<close>

definition updateState :: "Context \<Rightarrow> MaterialContract \<Rightarrow> error + world" where
  "updateState ctx state =
     (case CompositeKey_build ctx listName (key state) of
        Inl e \<Rightarrow> Inl e
      | Inr k \<Rightarrow>
          (case worldState ctx k of
             None \<Rightarrow> Inl NotFound
           | Some _ \<Rightarrow> Inr ((worldState ctx)(k \<mapsto> state))))"

text \<open>The three methods that \<open>ContractList\<close> declares (materialContractlist.js).\<close>

definition addMaterialContract :: "Context \<Rightarrow> MaterialContract \<Rightarrow> error + world" where
  "addMaterialContract ctx materialContract = addState ctx materialContract"

definition getMaterialContract :: "Context \<Rightarrow> jsval list \<Rightarrow> error + MaterialContract" where
  "getMaterialContract ctx materialContractKey = getState ctx materialContractKey"

definition updateMaterialContract :: "Context \<Rightarrow> MaterialContract \<Rightarrow> error + world" where
  "updateMaterialContract ctx materialContract = updateState ctx materialContract"

text \<open>
  A call \<open>ctx.materialContractList.name(argument)\<close> looks \<open>name\<close> up on the list object:
  its own three methods, and the three of \<open>StateList\<close> that they call on \<open>this\<close>. The
  methods that take a key and those that take an entity are kept in two tables. A name
  that the object does not have is \<open>undefined\<close>, and calling it throws a \<open>TypeError\<close>.
\<close>

definition ContractList_keyMethod ::
  "string \<Rightarrow> (Context \<Rightarrow> jsval list \<Rightarrow> error + MaterialContract) option" where
  "ContractList_keyMethod name =
     (if name = ''getMaterialContract'' then Some getMaterialContract
      else if name = ''getState'' then Some getState
      else None)"

definition ContractList_stateMethod ::
  "string \<Rightarrow> (Context \<Rightarrow> MaterialContract \<Rightarrow> error + world) option" where
  "ContractList_stateMethod name =
     (if name = ''addMaterialContract'' then Some addMaterialContract
      else if name = ''updateMaterialContract'' then Some updateMaterialContract
      else if name = ''addState'' then Some addState
      else if name = ''updateState'' then Some updateState
      else None)"

definition callWithKey :: "Context \<Rightarrow> string \<Rightarrow> jsval list \<Rightarrow> error + MaterialContract" where
  "callWithKey ctx name k =
     (case ContractList_keyMethod name of
        None \<Rightarrow> Inl (TypeError name)
      | Some m \<Rightarrow> m ctx k)"

definition callWithState :: "Context \<Rightarrow> string \<Rightarrow> MaterialContract \<Rightarrow> error + world" where
  "callWithState ctx name state =
     (case ContractList_stateMethod name of
        None \<Rightarrow> Inl (TypeError name)
      | Some m \<Rightarrow> m ctx state)"

section \<open>The contract (materialContractContract.js)\<close>

text \<open>
  A transaction returns its result together with the world state that it leaves, or the
  error that it throws; a thrown error leaves no world state, the invocation is aborted.
  The string arguments are those that the source documents as strings and compares with
  stored strings; \<open>materialNumber\<close> is documented as an integer; \<open>rewardValue\<close> is any
  value, since the source passes it through \<open>parseInt\<close>.
\<close>

definition issue ::
  "Context \<Rightarrow> string \<Rightarrow> int \<Rightarrow> string \<Rightarrow> string \<Rightarrow> jsval \<Rightarrow> error + (buffer \<times> world)" where
  "issue ctx issuer' materialNumber' matetialType' arrivalTime' rewardValue' =
     (let materialContract =
            createInstance (Str issuer') (Num materialNumber') (Str matetialType')
              (Str arrivalTime') (parseInt rewardValue');
          materialContract = setIssued materialContract;
          mspid' = getMSPID ctx;
          materialContract = setOwnerMSP materialContract mspid';
          materialContract = setOwner materialContract (Str issuer')
      in case callWithState ctx ''addMaterialContract'' materialContract of
           Inl e \<Rightarrow> Inl e
         | Inr w \<Rightarrow> Inr (toBuffer materialContract, w))"

definition selectContract ::
  "Context \<Rightarrow> string \<Rightarrow> int \<Rightarrow> string \<Rightarrow> string \<Rightarrow> error + (MaterialContract \<times> world)" where
  "selectContract ctx issuer' materialNumber' currentOwner newOwner =
     (let materialKey = makeKey [Str issuer', Num materialNumber'] in
      case callWithKey ctx ''getMaterialContract'' materialKey of
        Inl e \<Rightarrow> Inl e
      | Inr materialContract \<Rightarrow>
          if \<not> strict_eq (getOwner materialContract) (Str currentOwner) then Inl OwnershipMismatch
          else
            let materialContract =
                  (if isIssued materialContract then setTrading materialContract
                   else materialContract)
            in if isTrading materialContract then
                 let materialContract = setOwner materialContract (Str newOwner);
                     mspid' = getMSPID ctx;
                     materialContract = setOwnerMSP materialContract mspid'
                 in case callWithState ctx ''updateMaterialContract'' materialContract of
                      Inl e \<Rightarrow> Inl e
                    | Inr w \<Rightarrow> Inr (materialContract, w)
               else Inl InvalidState)"

definition signContract ::
  "Context \<Rightarrow> string \<Rightarrow> int \<Rightarrow> string \<Rightarrow> string \<Rightarrow> error + (MaterialContract \<times> world)" where
  "signContract ctx issuer' materialNumber' signingOwner issuingOwnerMSP =
     (let materialKey = makeKey [Str issuer', Num materialNumber'] in
      case callWithKey ctx ''getmaterial'' materialKey of
        Inl e \<Rightarrow> Inl e
      | Inr materialContract \<Rightarrow>
          if isSigned materialContract then Inl AlreadySigned
          else if \<not> strict_eq (getOwnerMSP materialContract) (getMSPID ctx) then Inl Unauthorized
          else if isTrading materialContract
                  \<and> strict_eq (getIssuer materialContract) (Str signingOwner) then
            let materialContract = setOwner materialContract (getIssuer materialContract);
                materialContract = setOwnerMSP materialContract (Str issuingOwnerMSP);
                materialContract = setSigned materialContract
            in case callWithState ctx ''updatematerial'' materialContract of
                 Inl e \<Rightarrow> Inl e
               | Inr w \<Rightarrow> Inr (materialContract, w)
          else Inl InvalidState)"

subsection \<open>Named queries\<close>

text \<open>
  The selectors that \<open>queryNamed\<close> builds: \<open>{ selector: { field: v } }\<close> and
  \<open>{ selector: { field: { $gt: n } } }\<close>.
\<close>

datatype selector = FieldEquals string jsval | FieldGreater string int

definition namedSelector :: "string \<Rightarrow> error + selector" where
  "namedSelector queryname =
     (if queryname = ''redeemed'' then Inr (FieldEquals ''currentState'' (Num 4))
      else if queryname = ''trading'' then Inr (FieldEquals ''currentState'' (Num 3))
      else if queryname = ''value'' then Inr (FieldGreater ''faceValue'' 4000000)
      else Inl UnknownNamedQuery)"

text \<open>The property of a stored entity by its name (the key, which is not a value of
  \<open>jsval\<close>, apart); an entity has no other property.\<close>

definition storedProperty :: "MaterialContract \<Rightarrow> string \<Rightarrow> jsval" where
  "storedProperty state name =
     (if name = ''class'' then Str (stateClass state)
      else if name = ''currentState'' then currentState state
      else if name = ''issuer'' then issuer state
      else if name = ''materialNumber'' then materialNumber state
      else if name = ''matetialType'' then matetialType state
      else if name = ''arrivalTime'' then arrivalTime state
      else if name = ''rewardValue'' then rewardValue state
      else if name = ''mspid'' then mspid state
      else if name = ''owner'' then owner state
      else Undefined)"

text \<open>
  Modelled from the spec: \<open>QueryUtils\<close> (queries.js) and the selector query of the ledger
  are not among the sources. \<open>bySelector\<close> returns the stored entities that the selector
  matches: a field comparison matches an entity whose field has the given value, or a
  number greater than the given one.
\<close>

fun selects :: "selector \<Rightarrow> MaterialContract \<Rightarrow> bool" where
  "selects (FieldEquals name v) state = (storedProperty state name = v)"
| "selects (FieldGreater name n) state =
     (case storedProperty state name of Num m \<Rightarrow> n < m | _ \<Rightarrow> False)"

definition queryByAdhoc :: "Context \<Rightarrow> selector \<Rightarrow> MaterialContract set" where
  "queryByAdhoc ctx querySelector = {state \<in> ran (worldState ctx). selects querySelector state}"

definition queryNamed :: "Context \<Rightarrow> string \<Rightarrow> error + MaterialContract set" where
  "queryNamed ctx queryname =
     (case namedSelector queryname of
        Inl e \<Rightarrow> Inl e
      | Inr querySelector \<Rightarrow> Inr (queryByAdhoc ctx querySelector))"

section \<open>Sequences of invocations\<close>

text \<open>
  An invocation names the organisation of its caller and the transaction with its
  arguments. Each invocation runs in a context of its own over the world state that the
  one before left; an invocation that throws changes nothing.
\<close>

datatype invocation =
    Issue string string int string string jsval
  | SelectContract string string int string string
  | SignContract string string int string string

definition commit :: "Context \<Rightarrow> error + ('a \<times> world) \<Rightarrow> Context" where
  "commit ctx r = (case r of Inl e \<Rightarrow> ctx | Inr (x, w) \<Rightarrow> ctx\<lparr>worldState := w\<rparr>)"

fun invoke :: "Context \<Rightarrow> invocation \<Rightarrow> Context" where
  "invoke ctx (Issue caller i n t a r) =
     commit ctx (issue (ctx\<lparr>clientMSPID := caller\<rparr>) i n t a r)"
| "invoke ctx (SelectContract caller i n c b) =
     commit ctx (selectContract (ctx\<lparr>clientMSPID := caller\<rparr>) i n c b)"
| "invoke ctx (SignContract caller i n s m) =
     commit ctx (signContract (ctx\<lparr>clientMSPID := caller\<rparr>) i n s m)"

definition invokeAll :: "Context \<Rightarrow> invocation list \<Rightarrow> Context" where
  "invokeAll ctx calls = foldl invoke ctx calls"

text \<open>The store keeps every entity under the key built from the entity's own key
  attributes: \<open>create\<close> and \<open>update\<close> write nowhere else.\<close>

definition storedUnderOwnKey :: "world \<Rightarrow> bool" where
  "storedUnderOwnKey w = (\<forall>k state. w k = Some state \<longrightarrow> k = (listName, key state))"

text \<open>The place of a lifecycle state in the order ISSUED, TRADING, SIGNED (0 for a
  value that is none of the three).\<close>

definition stateRank :: "jsval \<Rightarrow> nat" where
  "stateRank s =
     (if s = cmState_ISSUED then 1 else if s = cmState_TRADING then 2
      else if s = cmState_SIGNED then 3 else 0)"

definition failed :: "error + 'a \<Rightarrow> bool" where
  "failed r = (case r of Inl e \<Rightarrow> True | Inr x \<Rightarrow> False)"

text \<open>The entity that \<open>issue\<close> has built when it calls \<open>addMaterialContract\<close>
  (lemma \<open>issue_unfold\<close> below).\<close>

definition issuedContract ::
  "Context \<Rightarrow> string \<Rightarrow> int \<Rightarrow> string \<Rightarrow> string \<Rightarrow> jsval \<Rightarrow> MaterialContract" where
  "issuedContract ctx i n t a r =
     \<lparr> stateClass = getClass, key = [Str i, Undefined], currentState = cmState_ISSUED,
       issuer = Str i, materialNumber = Num n, matetialType = Str t, arrivalTime = Str a,
       rewardValue = parseInt r, mspid = Str (clientMSPID ctx), owner = Str i \<rparr>"

section \<open>Example data\<close>

text \<open>
  The contract of the spec's scenarios, issuer MagnetoCorp and number 1001, in a given
  lifecycle state and with a given owner and owning organisation, under the key of its
  issuer and number; a ledger that holds nothing; and a ledger that holds one entity under
  the entity's own key. The host of the examples accepts every key attribute but the empty
  string.
\<close>

definition exampleContract :: "jsval \<Rightarrow> string \<Rightarrow> string \<Rightarrow> MaterialContract" where
  "exampleContract s ownerName org =
     \<lparr> stateClass = getClass, key = makeKey [Str ''MagnetoCorp'', Num 1001], currentState = s,
       issuer = Str ''MagnetoCorp'', materialNumber = Num 1001, matetialType = Str ''Coal'',
       arrivalTime = Str ''2024-01-01'', rewardValue = Num 5000000, mspid = Str org,
       owner = Str ownerName \<rparr>"

definition emptyContext :: "string \<Rightarrow> (jsval \<Rightarrow> bool) \<Rightarrow> Context" where
  "emptyContext caller valid =
     \<lparr> clientMSPID = caller, validAttribute = valid, worldState = Map.empty \<rparr>"

definition exampleContext :: "string \<Rightarrow> MaterialContract \<Rightarrow> Context" where
  "exampleContext caller state =
     \<lparr> clientMSPID = caller, validAttribute = (\<lambda>a. a \<noteq> Str []),
       worldState = [(listName, key state) \<mapsto> state] \<rparr>"

section \<open>Basic facts\<close>

lemma strict_eq_Str [simp]: "strict_eq a (Str s) = (a = Str s)"
  by (auto simp: strict_eq_def)

lemma strict_eq_Num [simp]: "strict_eq a (Num n) = (a = Num n)"
  by (auto simp: strict_eq_def)

lemma callWithKey_getMaterialContract [simp]:
  "callWithKey ctx ''getMaterialContract'' k = getState ctx k"
  by (simp add: callWithKey_def ContractList_keyMethod_def getMaterialContract_def)

lemma callWithKey_getmaterial [simp]:
  "callWithKey ctx ''getmaterial'' k = Inl (TypeError ''getmaterial'')"
  by (simp add: callWithKey_def ContractList_keyMethod_def)

lemma callWithState_addMaterialContract [simp]:
  "callWithState ctx ''addMaterialContract'' state = addState ctx state"
  by (simp add: callWithState_def ContractList_stateMethod_def addMaterialContract_def)

lemma callWithState_updateMaterialContract [simp]:
  "callWithState ctx ''updateMaterialContract'' state = updateState ctx state"
  by (simp add: callWithState_def ContractList_stateMethod_def updateMaterialContract_def)

lemma createInstance_fields:
  "createInstance i n t a r =
     \<lparr> stateClass = getClass, key = [i, Undefined], currentState = Undefined, issuer = i,
       materialNumber = n, matetialType = t, arrivalTime = a, rewardValue = r,
       mspid = Undefined, owner = Undefined \<rparr>"
  by (simp add: createInstance_def MaterialContract_new_def property_def makeKey_def)

lemma issue_unfold:
  "issue ctx i n t a r =
     (case addState ctx (issuedContract ctx i n t a r) of
        Inl e \<Rightarrow> Inl e
      | Inr w \<Rightarrow> Inr (toBuffer (issuedContract ctx i n t a r), w))"
  by (simp add: issue_def createInstance_fields setIssued_def setOwnerMSP_def setOwner_def
      getMSPID_def issuedContract_def Let_def split: sum.split)

lemma addState_Inr:
  "addState ctx state = Inr w \<Longrightarrow>
     list_all (validAttribute ctx) (key state) \<and> worldState ctx (listName, key state) = None
     \<and> w = (worldState ctx)((listName, key state) \<mapsto> state)"
  by (auto simp: addState_def CompositeKey_build_def split: if_splits option.splits)

lemma updateState_Inr:
  "updateState ctx state = Inr w \<Longrightarrow>
     list_all (validAttribute ctx) (key state) \<and> worldState ctx (listName, key state) \<noteq> None
     \<and> w = (worldState ctx)((listName, key state) \<mapsto> state)"
  by (auto simp: updateState_def CompositeKey_build_def split: if_splits option.splits)

lemma getState_Inr:
  "getState ctx k = Inr state \<Longrightarrow>
     list_all (validAttribute ctx) k \<and> worldState ctx (listName, k) = Some state"
  by (auto simp: getState_def CompositeKey_build_def split: if_splits option.splits)

lemma issue_MagnetoCorp_1001:
  "issue (emptyContext ''MagnetoCorpMSP'' (\<lambda>a. a \<noteq> Str [])) ''MagnetoCorp'' 1001 ''Coal''
     ''2024-01-01'' (Num 5000000) =
   Inr (Buffer (exampleContract cmState_ISSUED ''MagnetoCorp'' ''MagnetoCorpMSP''
                  \<lparr>key := [Str ''MagnetoCorp'', Undefined]\<rparr>),
        [(listName, [Str ''MagnetoCorp'', Undefined]) \<mapsto>
           exampleContract cmState_ISSUED ''MagnetoCorp'' ''MagnetoCorpMSP''
             \<lparr>key := [Str ''MagnetoCorp'', Undefined]\<rparr>])"
  by (simp add: issue_unfold issuedContract_def addState_def CompositeKey_build_def
      emptyContext_def toBuffer_def jsonValue_def exampleContract_def cmState_ISSUED_def)

lemma getState_clientMSPID [simp]: "getState (ctx\<lparr>clientMSPID := x\<rparr>) k = getState ctx k"
  by (simp add: getState_def CompositeKey_build_def)

lemma addState_clientMSPID [simp]: "addState (ctx\<lparr>clientMSPID := x\<rparr>) s = addState ctx s"
  by (simp add: addState_def CompositeKey_build_def split: option.split)

lemma commit_Inl [simp]: "commit ctx (Inl e) = ctx"
  by (simp add: commit_def)

lemma commit_Inr [simp]: "commit ctx (Inr (x, w)) = ctx\<lparr>worldState := w\<rparr>"
  by (simp add: commit_def)

lemma issuedContract_key [simp]: "key (issuedContract ctx i n t a r) = [Str i, Undefined]"
  by (simp add: issuedContract_def)

lemma exampleContext_lookup:
  "getMaterialContract (exampleContext caller (exampleContract s ownerName org))
     (makeKey [Str ''MagnetoCorp'', Num 1001]) = Inr (exampleContract s ownerName org)"
  by (simp add: getMaterialContract_def getState_def CompositeKey_build_def exampleContext_def
      exampleContract_def makeKey_def)






lemma signContract_TypeError: "signContract ctx i n s m = Inl (TypeError ''getmaterial'')"
  by (simp add: signContract_def)

lemma updateState_clientMSPID [simp]:
  "updateState (ctx\<lparr>clientMSPID := x\<rparr>) s = updateState ctx s"
  by (simp add: updateState_def CompositeKey_build_def split: option.split)

lemma selectContract_Inr:
  assumes "selectContract ctx i n c b = Inr (mc', w)"
  shows "\<exists>mc. worldState ctx (listName, [Str i, Num n]) = Some mc
            \<and> (isIssued mc \<or> isTrading mc) \<and> isTrading mc' \<and> key mc' = key mc
            \<and> w = (worldState ctx)((listName, key mc) \<mapsto> mc')"
proof -
  from assms obtain mc where g: "getState ctx [Str i, Num n] = Inr mc"
    by (auto simp: selectContract_def makeKey_def split: sum.splits)
  let ?mc1 = "if isIssued mc then setTrading mc else mc"
  let ?mc2 = "setOwnerMSP (setOwner ?mc1 (Str b)) (getMSPID ctx)"
  from assms g have t: "isTrading ?mc1" and u: "updateState ctx ?mc2 = Inr w" and e: "mc' = ?mc2"
    by (auto simp: selectContract_def makeKey_def Let_def split: sum.splits if_splits)
  from t have 1: "isIssued mc \<or> isTrading mc" by (auto split: if_splits)
  have 2: "isTrading mc'" using t e
    by (auto simp: isTrading_def setOwnerMSP_def setOwner_def setTrading_def split: if_splits)
  have 3: "key mc' = key mc" using e
    by (simp add: setOwnerMSP_def setOwner_def setTrading_def)
  from updateState_Inr [OF u] e 3 have 4: "w = (worldState ctx)((listName, key mc) \<mapsto> mc')"
    by simp
  from getState_Inr [OF g] 1 2 3 4 show ?thesis by blast
qed

lemma invoke_entry:
  assumes wf: "storedUnderOwnKey (worldState ctx)" and s: "worldState ctx k = Some mc"
  shows "\<exists>mc'. worldState (invoke ctx call) k = Some mc'
           \<and> (mc' = mc \<or> ((isIssued mc \<or> isTrading mc) \<and> isTrading mc'))"
proof (cases call)
  case (Issue caller i n t a r)
  show ?thesis
  proof (cases "issue (ctx\<lparr>clientMSPID := caller\<rparr>) i n t a r")
    case (Inl e)
    with Issue s show ?thesis by simp
  next
    case (Inr p)
    then obtain buf w where p: "p = (buf, w)" by (cases p)
    let ?mc = "issuedContract (ctx\<lparr>clientMSPID := caller\<rparr>) i n t a r"
    from Inr p have a: "addState ctx ?mc = Inr w"
      by (auto simp: issue_unfold split: sum.splits)
    from addState_Inr [OF a] s have "w k = Some mc" by auto
    with Issue Inr p show ?thesis by simp
  qed
next
  case (SelectContract caller i n c b)
  show ?thesis
  proof (cases "selectContract (ctx\<lparr>clientMSPID := caller\<rparr>) i n c b")
    case (Inl e)
    with SelectContract s show ?thesis by simp
  next
    case (Inr p)
    then obtain mc2 w where p: "p = (mc2, w)" by (cases p)
    from selectContract_Inr [OF Inr [unfolded p]]
    obtain mc0 where g: "worldState ctx (listName, [Str i, Num n]) = Some mc0"
      and st: "isIssued mc0 \<or> isTrading mc0" "isTrading mc2"
      and w: "w = (worldState ctx)((listName, key mc0) \<mapsto> mc2)"
      by auto
    from wf g have k0: "(listName, [Str i, Num n]) = (listName, key mc0)"
      by (simp add: storedUnderOwnKey_def)
    show ?thesis
    proof (cases "k = (listName, key mc0)")
      case True
      with g k0 s have "mc0 = mc" by simp
      with True st w SelectContract Inr p show ?thesis by simp
    next
      case False
      with w s SelectContract Inr p show ?thesis by simp
    qed
  qed
next
  case (SignContract caller i n sg m)
  with s show ?thesis by (simp add: signContract_TypeError)
qed

lemma invoke_storedUnderOwnKey:
  assumes wf: "storedUnderOwnKey (worldState ctx)"
  shows "storedUnderOwnKey (worldState (invoke ctx call))"
proof (cases call)
  case (Issue caller i n t a r)
  show ?thesis
  proof (cases "issue (ctx\<lparr>clientMSPID := caller\<rparr>) i n t a r")
    case (Inl e)
    with Issue wf show ?thesis by simp
  next
    case (Inr p)
    then obtain buf w where p: "p = (buf, w)" by (cases p)
    let ?mc = "issuedContract (ctx\<lparr>clientMSPID := caller\<rparr>) i n t a r"
    from Inr p have a: "addState ctx ?mc = Inr w"
      by (auto simp: issue_unfold split: sum.splits)
    from addState_Inr [OF a] wf have "storedUnderOwnKey w"
      by (auto simp: storedUnderOwnKey_def)
    with Issue Inr p show ?thesis by simp
  qed
next
  case (SelectContract caller i n c b)
  show ?thesis
  proof (cases "selectContract (ctx\<lparr>clientMSPID := caller\<rparr>) i n c b")
    case (Inl e)
    with SelectContract wf show ?thesis by simp
  next
    case (Inr p)
    then obtain mc2 w where p: "p = (mc2, w)" by (cases p)
    from selectContract_Inr [OF Inr [unfolded p]]
    obtain mc0 where "worldState ctx (listName, [Str i, Num n]) = Some mc0"
      and "key mc2 = key mc0" and "w = (worldState ctx)((listName, key mc0) \<mapsto> mc2)"
      by auto
    with wf have "storedUnderOwnKey w"
      by (auto simp: storedUnderOwnKey_def)
    with SelectContract Inr p show ?thesis by simp
  qed
next
  case (SignContract caller i n sg m)
  with wf show ?thesis by (simp add: signContract_TypeError)
qed

lemma storedUnderOwnKey_empty: "storedUnderOwnKey Map.empty"
  by (simp add: storedUnderOwnKey_def)

lemma invokeAll_storedUnderOwnKey:
  "storedUnderOwnKey (worldState ctx) \<Longrightarrow> storedUnderOwnKey (worldState (invokeAll ctx calls))"
  by (induction calls arbitrary: ctx) (simp_all add: invokeAll_def invoke_storedUnderOwnKey)

lemma invokeAll_entry:
  assumes "storedUnderOwnKey (worldState ctx)" and "worldState ctx k = Some mc"
  shows "\<exists>mc'. worldState (invokeAll ctx calls) k = Some mc'
           \<and> (mc' = mc \<or> ((isIssued mc \<or> isTrading mc) \<and> isTrading mc'))"
  using assms
proof (induction calls arbitrary: ctx mc)
  case Nil
  then show ?case by (simp add: invokeAll_def)
next
  case (Cons call calls)
  from invoke_entry [OF Cons.prems, of call]
  obtain mc1 where 1: "worldState (invoke ctx call) k = Some mc1"
    and r1: "mc1 = mc \<or> ((isIssued mc \<or> isTrading mc) \<and> isTrading mc1)" by blast
  from Cons.IH [OF invoke_storedUnderOwnKey [OF Cons.prems(1)] 1]
  obtain mc2 where 2: "worldState (invokeAll (invoke ctx call) calls) k = Some mc2"
    and r2: "mc2 = mc1 \<or> ((isIssued mc1 \<or> isTrading mc1) \<and> isTrading mc2)" by blast
  from r1 r2 have "mc2 = mc \<or> ((isIssued mc \<or> isTrading mc) \<and> isTrading mc2)" by blast
  with 2 show ?case by (auto simp: invokeAll_def)
qed

lemma selectContract_signed_fails:
  assumes "worldState ctx (listName, makeKey [Str i, Num n]) = Some mc" and "isSigned mc"
  shows "failed (selectContract ctx i n c b)"
proof (cases "getState ctx (makeKey [Str i, Num n])")
  case (Inl e)
  then show ?thesis by (simp add: selectContract_def failed_def)
next
  case (Inr mc0)
  from getState_Inr [OF Inr] assms(1) have "mc0 = mc" by simp
  with Inr assms(2) show ?thesis
    by (simp add: selectContract_def failed_def isSigned_def isIssued_def isTrading_def
        cmState_SIGNED_def cmState_ISSUED_def cmState_TRADING_def)
qed

lemma stateRank_advance:
  "mc' = mc \<or> ((isIssued mc \<or> isTrading mc) \<and> isTrading mc')
     \<Longrightarrow> stateRank (currentState mc) \<le> stateRank (currentState mc')"
  by (auto simp: stateRank_def isIssued_def isTrading_def cmState_ISSUED_def cmState_TRADING_def
      cmState_SIGNED_def)

lemma signed_stays:
  "isSigned mc \<Longrightarrow> mc' = mc \<or> ((isIssued mc \<or> isTrading mc) \<and> isTrading mc') \<Longrightarrow> mc' = mc"
  by (auto simp: isSigned_def isIssued_def isTrading_def cmState_ISSUED_def cmState_TRADING_def
      cmState_SIGNED_def)

lemma exampleContext_storedUnderOwnKey:
  "storedUnderOwnKey (worldState (exampleContext caller state))"
  by (simp add: storedUnderOwnKey_def exampleContext_def)

lemma exampleContext_stored:
  "worldState (exampleContext caller (exampleContract s ownerName org))
     (listName, makeKey [Str ''MagnetoCorp'', Num 1001]) = Some (exampleContract s ownerName org)"
  by (simp add: exampleContext_def exampleContract_def)

lemma example_transfers:
  "worldState
     (invokeAll
        (exampleContext ''MagnetoCorpMSP''
           (exampleContract cmState_ISSUED ''MagnetoCorp'' ''MagnetoCorpMSP''))
        [SelectContract ''DigiBankMSP'' ''MagnetoCorp'' 1001 ''MagnetoCorp'' ''DigiBank'',
         SignContract ''DigiBankMSP'' ''MagnetoCorp'' 1001 ''MagnetoCorp'' ''MagnetoCorpMSP'',
         SelectContract ''HedgematicMSP'' ''MagnetoCorp'' 1001 ''DigiBank'' ''Hedgematic''])
     (listName, makeKey [Str ''MagnetoCorp'', Num 1001])
   = Some (exampleContract cmState_TRADING ''Hedgematic'' ''HedgematicMSP'')"
  by (simp add: invokeAll_def signContract_TypeError selectContract_def getState_def
      updateState_def CompositeKey_build_def exampleContext_def exampleContract_def makeKey_def
      getOwner_def isIssued_def isTrading_def setTrading_def setOwner_def setOwnerMSP_def
      getMSPID_def cmState_ISSUED_def cmState_TRADING_def Let_def)

lemma issue_leaves_lookup_key:
  "worldState (invoke ctx (Issue caller i n t a r)) (listName, makeKey [Str i, Num n])
     = worldState ctx (listName, makeKey [Str i, Num n])"
proof (cases "issue (ctx\<lparr>clientMSPID := caller\<rparr>) i n t a r")
  case (Inl e)
  then show ?thesis by simp
next
  case (Inr p)
  then obtain buf w where p: "p = (buf, w)" by (cases p)
  from Inr p have a: "addState ctx (issuedContract (ctx\<lparr>clientMSPID := caller\<rparr>) i n t a r) = Inr w"
    by (auto simp: issue_unfold split: sum.splits)
  from addState_Inr [OF a] Inr p show ?thesis by (simp add: makeKey_def)
qed

section \<open>Claims\<close>

subsection \<open>C6: what issue creates\<close>

text \<open>
  C6. For every \<open>issue(issuer, materialNumber, materialType, arrivalTime, rewardValue)\<close>
  call that succeeds, the newly constructed MaterialContract has state ISSUED, owner equal
  to the issuer and owning organisation equal to the organisation of the caller; it is
  added to the store through \<open>addMaterialContract\<close>, so the world state that the call
  leaves holds it under its key; and the call returns the serialized entity.
\<close>

theorem issue_creates_issued_contract:
  assumes "issue ctx i n t a r = Inr (buf, w)"
  shows "\<exists>mc. isIssued mc \<and> getOwner mc = Str i \<and> getOwnerMSP mc = Str (clientMSPID ctx)
           \<and> addMaterialContract ctx mc = Inr w \<and> w (listName, key mc) = Some mc
           \<and> buf = toBuffer mc"
proof -
  let ?mc = "issuedContract ctx i n t a r"
  from assms have a: "addState ctx ?mc = Inr w" and b: "buf = toBuffer ?mc"
    by (auto simp: issue_unfold split: sum.splits)
  from addState_Inr [OF a] have "w (listName, key ?mc) = Some ?mc" by simp
  moreover have "isIssued ?mc" "getOwner ?mc = Str i" "getOwnerMSP ?mc = Str (clientMSPID ctx)"
    by (simp_all add: issuedContract_def isIssued_def getOwner_def getOwnerMSP_def
        cmState_ISSUED_def)
  ultimately show ?thesis using a b by (auto simp: addMaterialContract_def)
qed

text \<open>Scenario A: MagnetoCorp issues contract 1001 on an empty ledger.\<close>

theorem issue_creates_issued_contract_witness:
  "issue (emptyContext ''MagnetoCorpMSP'' (\<lambda>a. a \<noteq> Str [])) ''MagnetoCorp'' 1001 ''Coal''
     ''2024-01-01'' (Num 5000000) =
   Inr (Buffer (exampleContract cmState_ISSUED ''MagnetoCorp'' ''MagnetoCorpMSP''
                  \<lparr>key := [Str ''MagnetoCorp'', Undefined]\<rparr>),
        [(listName, [Str ''MagnetoCorp'', Undefined]) \<mapsto>
           exampleContract cmState_ISSUED ''MagnetoCorp'' ''MagnetoCorpMSP''
             \<lparr>key := [Str ''MagnetoCorp'', Undefined]\<rparr>])
   \<and> (\<exists>mc. isIssued mc \<and> getOwner mc = Str ''MagnetoCorp''
          \<and> getOwnerMSP mc = Str ''MagnetoCorpMSP''
          \<and> Buffer (exampleContract cmState_ISSUED ''MagnetoCorp'' ''MagnetoCorpMSP''
                      \<lparr>key := [Str ''MagnetoCorp'', Undefined]\<rparr>) = toBuffer mc)"
proof -
  note h = issue_MagnetoCorp_1001
  from issue_creates_issued_contract [OF h]
  have "\<exists>mc. isIssued mc \<and> getOwner mc = Str ''MagnetoCorp''
          \<and> getOwnerMSP mc = Str ''MagnetoCorpMSP''
          \<and> Buffer (exampleContract cmState_ISSUED ''MagnetoCorp'' ''MagnetoCorpMSP''
                      \<lparr>key := [Str ''MagnetoCorp'', Undefined]\<rparr>) = toBuffer mc"
    by (auto simp: emptyContext_def)
  with h show ?thesis by (rule conjI)
qed

subsection \<open>C4: selectContract checks the current owner\<close>

text \<open>
  C4. For every stored MaterialContract whose recorded owner differs from the
  \<open>currentOwner\<close> argument, \<open>selectContract\<close> fails with the ownership-mismatch error and
  changes nothing: the error is thrown before any call of the store's update, and the
  invocation leaves the context, the world state with every stored entity in it, as it
  was. The stored contract is the entity that the list returns for the key of the issuer
  and the material number.
\<close>

theorem selectContract_rejects_other_owner:
  assumes "getMaterialContract ctx (makeKey [Str i, Num n]) = Inr mc"
      and "getOwner mc \<noteq> Str c"
  shows "selectContract ctx i n c b = Inl OwnershipMismatch
       \<and> invoke ctx (SelectContract (clientMSPID ctx) i n c b) = ctx"
  using assms by (simp add: selectContract_def getMaterialContract_def)

text \<open>Hedgematic, which does not own the issued contract, tries to pass it on.\<close>

theorem selectContract_rejects_other_owner_witness:
  "getMaterialContract
      (exampleContext ''HedgematicMSP''
         (exampleContract cmState_ISSUED ''MagnetoCorp'' ''MagnetoCorpMSP''))
      (makeKey [Str ''MagnetoCorp'', Num 1001])
     = Inr (exampleContract cmState_ISSUED ''MagnetoCorp'' ''MagnetoCorpMSP'')
   \<and> getOwner (exampleContract cmState_ISSUED ''MagnetoCorp'' ''MagnetoCorpMSP'')
       \<noteq> Str ''Hedgematic''
   \<and> selectContract
        (exampleContext ''HedgematicMSP''
           (exampleContract cmState_ISSUED ''MagnetoCorp'' ''MagnetoCorpMSP''))
        ''MagnetoCorp'' 1001 ''Hedgematic'' ''Hedgematic'' = Inl OwnershipMismatch
   \<and> invoke
        (exampleContext ''HedgematicMSP''
           (exampleContract cmState_ISSUED ''MagnetoCorp'' ''MagnetoCorpMSP''))
        (SelectContract ''HedgematicMSP'' ''MagnetoCorp'' 1001 ''Hedgematic'' ''Hedgematic'')
       = exampleContext ''HedgematicMSP''
           (exampleContract cmState_ISSUED ''MagnetoCorp'' ''MagnetoCorpMSP'')"
proof -
  let ?mc = "exampleContract cmState_ISSUED ''MagnetoCorp'' ''MagnetoCorpMSP''"
  let ?ctx = "exampleContext ''HedgematicMSP'' ?mc"
  note g = exampleContext_lookup [of "''HedgematicMSP''" cmState_ISSUED "''MagnetoCorp''"
      "''MagnetoCorpMSP''"]
  have o: "getOwner ?mc \<noteq> Str ''Hedgematic''"
    by (simp add: getOwner_def exampleContract_def)
  have m: "clientMSPID ?ctx = ''HedgematicMSP''"
    by (simp add: exampleContext_def)
  from selectContract_rejects_other_owner [OF g o] g o show ?thesis
    by (simp only: m simp_thms)
qed

subsection \<open>C5: selectContract passes the contract on\<close>



subsection \<open>C9: a second issue of the same contract\<close>

text \<open>
  C9. For every issuer and material number, after an \<open>issue\<close> that succeeded, a second
  \<open>issue\<close> for the same pair, by any caller and with any other arguments, fails with the
  duplicate-key error, and the invocation leaves the world state, with the entity stored
  first, as it was.
\<close>

theorem second_issue_is_duplicate:
  assumes "issue ctx i n t a r = Inr (buf, w)"
  shows "issue (ctx\<lparr>worldState := w, clientMSPID := caller\<rparr>) i n t' a' r' = Inl DuplicateKey
       \<and> invoke (ctx\<lparr>worldState := w\<rparr>) (Issue caller i n t' a' r') = ctx\<lparr>worldState := w\<rparr>"
proof -
  from assms have a: "addState ctx (issuedContract ctx i n t a r) = Inr w"
    by (auto simp: issue_unfold split: sum.splits)
  from addState_Inr [OF a]
  have v: "list_all (validAttribute ctx) [Str i, Undefined]"
    and w: "w (listName, [Str i, Undefined]) = Some (issuedContract ctx i n t a r)"
    by simp_all
  have "issue (ctx\<lparr>worldState := w, clientMSPID := x\<rparr>) i n t' a' r' = Inl DuplicateKey" for x
    using v w by (simp add: issue_unfold addState_def CompositeKey_build_def)
  then show ?thesis by (simp add: commit_def)
qed

text \<open>After scenario A, DigiBank issues MagnetoCorp's contract 1001 again.\<close>

theorem second_issue_is_duplicate_witness:
  "issue (emptyContext ''MagnetoCorpMSP'' (\<lambda>a. a \<noteq> Str [])) ''MagnetoCorp'' 1001 ''Coal''
     ''2024-01-01'' (Num 5000000) =
   Inr (Buffer (exampleContract cmState_ISSUED ''MagnetoCorp'' ''MagnetoCorpMSP''
                  \<lparr>key := [Str ''MagnetoCorp'', Undefined]\<rparr>),
        [(listName, [Str ''MagnetoCorp'', Undefined]) \<mapsto>
           exampleContract cmState_ISSUED ''MagnetoCorp'' ''MagnetoCorpMSP''
             \<lparr>key := [Str ''MagnetoCorp'', Undefined]\<rparr>])
   \<and> issue (emptyContext ''MagnetoCorpMSP'' (\<lambda>a. a \<noteq> Str [])
        \<lparr>worldState := [(listName, [Str ''MagnetoCorp'', Undefined]) \<mapsto>
             exampleContract cmState_ISSUED ''MagnetoCorp'' ''MagnetoCorpMSP''
               \<lparr>key := [Str ''MagnetoCorp'', Undefined]\<rparr>],
          clientMSPID := ''DigiBankMSP''\<rparr>)
        ''MagnetoCorp'' 1001 ''Iron'' ''2024-02-02'' (Num 7) = Inl DuplicateKey"
  using issue_MagnetoCorp_1001
    second_issue_is_duplicate [OF issue_MagnetoCorp_1001, of "''DigiBankMSP''" "''Iron''"
      "''2024-02-02''" "Num 7"]
  by simp

subsection \<open>C8: issue and a rewardValue that is not a number\<close>




subsection \<open>C10: the named query trading\<close>

text \<open>
  C10. The selector that \<open>queryNamed\<close> builds for the name \<open>trading\<close> matches the
  entities whose \<open>currentState\<close> is 3. In the encoding of \<open>cmState\<close> (ISSUED 1,
  TRADING 2, SIGNED 3) that is SIGNED and not TRADING: the query returns the stored
  entities that are SIGNED, and never one whose state is TRADING.
\<close>

theorem queryNamed_trading_selects_signed:
  "namedSelector ''trading'' = Inr (FieldEquals ''currentState'' (Num 3))
   \<and> cmState_SIGNED = Num 3 \<and> cmState_TRADING = Num 2 \<and> cmState_ISSUED = Num 1
   \<and> queryNamed ctx ''trading'' = Inr {state \<in> ran (worldState ctx). isSigned state}
   \<and> (\<forall>results state. queryNamed ctx ''trading'' = Inr results \<longrightarrow> isTrading state
         \<longrightarrow> state \<notin> results)"
proof -
  have n: "namedSelector ''trading'' = Inr (FieldEquals ''currentState'' (Num 3))"
    by (simp add: namedSelector_def)
  have q: "queryNamed ctx ''trading'' = Inr {state \<in> ran (worldState ctx). isSigned state}"
    by (simp add: queryNamed_def n queryByAdhoc_def storedProperty_def isSigned_def
        cmState_SIGNED_def)
  have "\<not> (isTrading state \<and> isSigned state)" for state
    by (simp add: isTrading_def isSigned_def cmState_TRADING_def cmState_SIGNED_def)
  with n q show ?thesis
    by (auto simp: cmState_SIGNED_def cmState_TRADING_def cmState_ISSUED_def)
qed

text \<open>A ledger that holds one TRADING contract answers the query with nothing; a ledger
  that holds one SIGNED contract answers with that contract.\<close>

theorem queryNamed_trading_selects_signed_witness:
  "isTrading (exampleContract cmState_TRADING ''DigiBank'' ''DigiBankMSP'')
   \<and> queryNamed
       (exampleContext ''DigiBankMSP''
          (exampleContract cmState_TRADING ''DigiBank'' ''DigiBankMSP''))
       ''trading'' = Inr {}
   \<and> queryNamed
       (exampleContext ''DigiBankMSP''
          (exampleContract cmState_SIGNED ''MagnetoCorp'' ''MagnetoCorpMSP''))
       ''trading'' = Inr {exampleContract cmState_SIGNED ''MagnetoCorp'' ''MagnetoCorpMSP''}"
proof -
  let ?t = "exampleContract cmState_TRADING ''DigiBank'' ''DigiBankMSP''"
  let ?s = "exampleContract cmState_SIGNED ''MagnetoCorp'' ''MagnetoCorpMSP''"
  have t: "isTrading ?t" "\<not> isSigned ?t"
    by (simp_all add: isTrading_def isSigned_def exampleContract_def cmState_TRADING_def
        cmState_SIGNED_def)
  have s: "isSigned ?s"
    by (simp add: isSigned_def exampleContract_def cmState_SIGNED_def)
  have r: "ran (worldState (exampleContext c m)) = {m}" for c m
    by (simp add: exampleContext_def)
  note q = queryNamed_trading_selects_signed
  from q [of "exampleContext ''DigiBankMSP'' ?t"] t
  have 1: "queryNamed (exampleContext ''DigiBankMSP'' ?t) ''trading'' = Inr {}"
    by (simp add: r)
  from q [of "exampleContext ''DigiBankMSP'' ?s"] s
  have 2: "queryNamed (exampleContext ''DigiBankMSP'' ?s) ''trading'' = Inr {?s}"
    by (auto simp: r)
  from t(1) 1 2 show ?thesis by simp
qed

subsection \<open>C3: the lifecycle state never goes back\<close>

text \<open>
  C3. Take a world state in which every entity is kept under its own key attributes, a
  contract stored in it under the key of its issuer and material number, and any sequence
  of invocations (\<open>selectContract\<close>, \<open>signContract\<close>, and \<open>issue\<close> as well). After
  the sequence the contract is still stored, and its lifecycle state has not gone back in
  the order ISSUED, TRADING, SIGNED. If it is TRADING afterwards, it was ISSUED or TRADING
  before. If it was SIGNED before, the stored entity is unchanged afterwards, and every
  further \<open>selectContract\<close> or \<open>signContract\<close> on it, by any caller, fails.
\<close>

theorem lifecycle_never_regresses:
  assumes "storedUnderOwnKey (worldState ctx)"
      and "worldState ctx (listName, makeKey [Str i, Num n]) = Some mc"
  shows "\<exists>mc'. worldState (invokeAll ctx calls) (listName, makeKey [Str i, Num n]) = Some mc'
           \<and> stateRank (currentState mc) \<le> stateRank (currentState mc')
           \<and> (isTrading mc' \<longrightarrow> isIssued mc \<or> isTrading mc)
           \<and> (isSigned mc \<longrightarrow> mc' = mc
                \<and> failed (selectContract ((invokeAll ctx calls)\<lparr>clientMSPID := caller\<rparr>) i n c b)
                \<and> failed (signContract ((invokeAll ctx calls)\<lparr>clientMSPID := caller\<rparr>) i n s m))"
proof -
  let ?k = "(listName, makeKey [Str i, Num n])"
  from invokeAll_entry [OF assms, of calls]
  obtain mc' where 1: "worldState (invokeAll ctx calls) ?k = Some mc'"
    and r: "mc' = mc \<or> ((isIssued mc \<or> isTrading mc) \<and> isTrading mc')" by blast
  have 2: "stateRank (currentState mc) \<le> stateRank (currentState mc')"
    using r by (rule stateRank_advance)
  have 3: "isTrading mc' \<longrightarrow> isIssued mc \<or> isTrading mc" using r by blast
  have 4: "mc' = mc" if "isSigned mc" using that r by (rule signed_stays)
  have 5: "failed (selectContract ((invokeAll ctx calls)\<lparr>clientMSPID := caller\<rparr>) i n c b)"
    if "isSigned mc"
    using 1 4 [OF that] that by (intro selectContract_signed_fails [where mc = mc]) simp_all
  have 6: "failed (signContract ((invokeAll ctx calls)\<lparr>clientMSPID := caller\<rparr>) i n s m)"
    by (simp add: signContract_TypeError failed_def)
  from 1 2 3 4 5 6 show ?thesis by blast
qed

text \<open>
  A SIGNED contract after a \<open>selectContract\<close> and a \<open>signContract\<close>: unchanged, and
  a further \<open>selectContract\<close> fails. An ISSUED contract that goes to DigiBank and then to
  Hedgematic, with a \<open>signContract\<close> between the two: TRADING at the end.
\<close>

theorem lifecycle_never_regresses_witness:
  "storedUnderOwnKey
     (worldState (exampleContext ''MagnetoCorpMSP''
        (exampleContract cmState_SIGNED ''MagnetoCorp'' ''MagnetoCorpMSP'')))
   \<and> isSigned (exampleContract cmState_SIGNED ''MagnetoCorp'' ''MagnetoCorpMSP'')
   \<and> worldState
       (invokeAll
          (exampleContext ''MagnetoCorpMSP''
             (exampleContract cmState_SIGNED ''MagnetoCorp'' ''MagnetoCorpMSP''))
          [SelectContract ''MagnetoCorpMSP'' ''MagnetoCorp'' 1001 ''MagnetoCorp'' ''DigiBank'',
           SignContract ''MagnetoCorpMSP'' ''MagnetoCorp'' 1001 ''MagnetoCorp'' ''MagnetoCorpMSP''])
       (listName, makeKey [Str ''MagnetoCorp'', Num 1001])
     = Some (exampleContract cmState_SIGNED ''MagnetoCorp'' ''MagnetoCorpMSP'')
   \<and> failed
       (selectContract
          ((invokeAll
              (exampleContext ''MagnetoCorpMSP''
                 (exampleContract cmState_SIGNED ''MagnetoCorp'' ''MagnetoCorpMSP''))
              [SelectContract ''MagnetoCorpMSP'' ''MagnetoCorp'' 1001 ''MagnetoCorp'' ''DigiBank'',
               SignContract ''MagnetoCorpMSP'' ''MagnetoCorp'' 1001 ''MagnetoCorp''
                 ''MagnetoCorpMSP''])
             \<lparr>clientMSPID := ''MagnetoCorpMSP''\<rparr>)
          ''MagnetoCorp'' 1001 ''MagnetoCorp'' ''Hedgematic'')
   \<and> isIssued (exampleContract cmState_ISSUED ''MagnetoCorp'' ''MagnetoCorpMSP'')
   \<and> isTrading (exampleContract cmState_TRADING ''Hedgematic'' ''HedgematicMSP'')
   \<and> worldState
       (invokeAll
          (exampleContext ''MagnetoCorpMSP''
             (exampleContract cmState_ISSUED ''MagnetoCorp'' ''MagnetoCorpMSP''))
          [SelectContract ''DigiBankMSP'' ''MagnetoCorp'' 1001 ''MagnetoCorp'' ''DigiBank'',
           SignContract ''DigiBankMSP'' ''MagnetoCorp'' 1001 ''MagnetoCorp'' ''MagnetoCorpMSP'',
           SelectContract ''HedgematicMSP'' ''MagnetoCorp'' 1001 ''DigiBank'' ''Hedgematic''])
       (listName, makeKey [Str ''MagnetoCorp'', Num 1001])
     = Some (exampleContract cmState_TRADING ''Hedgematic'' ''HedgematicMSP'')
   \<and> stateRank (currentState (exampleContract cmState_ISSUED ''MagnetoCorp'' ''MagnetoCorpMSP''))
       \<le> stateRank (currentState (exampleContract cmState_TRADING ''Hedgematic'' ''HedgematicMSP''))"
proof -
  let ?signed = "exampleContract cmState_SIGNED ''MagnetoCorp'' ''MagnetoCorpMSP''"
  let ?issued = "exampleContract cmState_ISSUED ''MagnetoCorp'' ''MagnetoCorpMSP''"
  let ?trading = "exampleContract cmState_TRADING ''Hedgematic'' ''HedgematicMSP''"
  have s: "isSigned ?signed"
    by (simp add: isSigned_def exampleContract_def cmState_SIGNED_def)
  have i: "isIssued ?issued"
    by (simp add: isIssued_def exampleContract_def cmState_ISSUED_def)
  have t: "isTrading ?trading"
    by (simp add: isTrading_def exampleContract_def cmState_TRADING_def)
  note a = lifecycle_never_regresses [OF exampleContext_storedUnderOwnKey exampleContext_stored,
      of "''MagnetoCorpMSP''" cmState_SIGNED "''MagnetoCorp''" "''MagnetoCorpMSP''"
        "[SelectContract ''MagnetoCorpMSP'' ''MagnetoCorp'' 1001 ''MagnetoCorp'' ''DigiBank'',
          SignContract ''MagnetoCorpMSP'' ''MagnetoCorp'' 1001 ''MagnetoCorp'' ''MagnetoCorpMSP'']"
        "''MagnetoCorpMSP''" "''MagnetoCorp''" "''Hedgematic''" "''MagnetoCorp''"
        "''MagnetoCorpMSP''"]
  note b = lifecycle_never_regresses [OF exampleContext_storedUnderOwnKey exampleContext_stored,
      of "''MagnetoCorpMSP''" cmState_ISSUED "''MagnetoCorp''" "''MagnetoCorpMSP''"
        "[SelectContract ''DigiBankMSP'' ''MagnetoCorp'' 1001 ''MagnetoCorp'' ''DigiBank'',
          SignContract ''DigiBankMSP'' ''MagnetoCorp'' 1001 ''MagnetoCorp'' ''MagnetoCorpMSP'',
          SelectContract ''HedgematicMSP'' ''MagnetoCorp'' 1001 ''DigiBank'' ''Hedgematic'']"]
  from b example_transfers
  have r: "stateRank (currentState ?issued) \<le> stateRank (currentState ?trading)"
    by auto
  from a s have "worldState
       (invokeAll (exampleContext ''MagnetoCorpMSP'' ?signed)
          [SelectContract ''MagnetoCorpMSP'' ''MagnetoCorp'' 1001 ''MagnetoCorp'' ''DigiBank'',
           SignContract ''MagnetoCorpMSP'' ''MagnetoCorp'' 1001 ''MagnetoCorp'' ''MagnetoCorpMSP''])
       (listName, makeKey [Str ''MagnetoCorp'', Num 1001]) = Some ?signed
     \<and> failed
       (selectContract
          ((invokeAll (exampleContext ''MagnetoCorpMSP'' ?signed)
              [SelectContract ''MagnetoCorpMSP'' ''MagnetoCorp'' 1001 ''MagnetoCorp'' ''DigiBank'',
               SignContract ''MagnetoCorpMSP'' ''MagnetoCorp'' 1001 ''MagnetoCorp''
                 ''MagnetoCorpMSP''])
             \<lparr>clientMSPID := ''MagnetoCorpMSP''\<rparr>)
          ''MagnetoCorp'' 1001 ''MagnetoCorp'' ''Hedgematic'')"
    by auto
  with exampleContext_storedUnderOwnKey s i t example_transfers r show ?thesis by simp
qed

subsection \<open>C1: signContract on a contract that may be signed\<close>

text \<open>
  C1 says that \<open>signContract\<close> succeeds on a stored contract that is TRADING, whose
  owning organisation is that of the caller and whose issuer is the signing owner. The
  source reads the contract with \<open>ctx.materialContractList.getmaterial\<close> and writes it
  with \<open>updatematerial\<close>; the list has neither method (it has \<open>getMaterialContract\<close>
  and \<open>updateMaterialContract\<close>, which \<open>selectContract\<close> calls). In scenario C, with
  every condition of the claim met, the call throws the \<open>TypeError\<close> of the first of the
  two, before any check.
\<close>

theorem signContract_throws_TypeError:
  "getMaterialContract
      (exampleContext ''DigiBankMSP'' (exampleContract cmState_TRADING ''DigiBank'' ''DigiBankMSP''))
      (makeKey [Str ''MagnetoCorp'', Num 1001])
     = Inr (exampleContract cmState_TRADING ''DigiBank'' ''DigiBankMSP'')
   \<and> isTrading (exampleContract cmState_TRADING ''DigiBank'' ''DigiBankMSP'')
   \<and> getOwnerMSP (exampleContract cmState_TRADING ''DigiBank'' ''DigiBankMSP'')
       = getMSPID (exampleContext ''DigiBankMSP''
                     (exampleContract cmState_TRADING ''DigiBank'' ''DigiBankMSP''))
   \<and> getIssuer (exampleContract cmState_TRADING ''DigiBank'' ''DigiBankMSP'') = Str ''MagnetoCorp''
   \<and> ContractList_keyMethod ''getmaterial'' = None
   \<and> ContractList_stateMethod ''updatematerial'' = None
   \<and> signContract
        (exampleContext ''DigiBankMSP'' (exampleContract cmState_TRADING ''DigiBank'' ''DigiBankMSP''))
        ''MagnetoCorp'' 1001 ''MagnetoCorp'' ''MagnetoCorpMSP''
       = Inl (TypeError ''getmaterial'')"
proof -
  let ?mc = "exampleContract cmState_TRADING ''DigiBank'' ''DigiBankMSP''"
  have 1: "isTrading ?mc" "getIssuer ?mc = Str ''MagnetoCorp''"
    "getOwnerMSP ?mc = getMSPID (exampleContext ''DigiBankMSP'' ?mc)"
    by (simp_all add: isTrading_def getOwnerMSP_def getIssuer_def getMSPID_def
        exampleContract_def exampleContext_def cmState_TRADING_def)
  have 2: "ContractList_keyMethod ''getmaterial'' = None"
    "ContractList_stateMethod ''updatematerial'' = None"
    by (simp_all add: ContractList_keyMethod_def ContractList_stateMethod_def)
  show ?thesis
    by (intro conjI) (rule exampleContext_lookup 1 2 signContract_TypeError)+
qed

subsection \<open>C7: the checks of signContract\<close>

text \<open>
  C7 says that \<open>signContract\<close> fails with the already-signed error on a SIGNED contract
  and with the unauthorized error for a caller of another organisation. Both checks stand
  in the source, in that order, behind the read through \<open>getmaterial\<close>: on a SIGNED
  contract, and on a TRADING contract for a caller of another organisation, the call
  throws the \<open>TypeError\<close> of that read instead.
\<close>

theorem signContract_checks_not_reached:
  "isSigned (exampleContract cmState_SIGNED ''MagnetoCorp'' ''MagnetoCorpMSP'')
   \<and> signContract
        (exampleContext ''MagnetoCorpMSP''
           (exampleContract cmState_SIGNED ''MagnetoCorp'' ''MagnetoCorpMSP''))
        ''MagnetoCorp'' 1001 ''MagnetoCorp'' ''MagnetoCorpMSP''
       = Inl (TypeError ''getmaterial'')
   \<and> getOwnerMSP (exampleContract cmState_TRADING ''DigiBank'' ''DigiBankMSP'')
       \<noteq> getMSPID (exampleContext ''HedgematicMSP''
                      (exampleContract cmState_TRADING ''DigiBank'' ''DigiBankMSP''))
   \<and> signContract
        (exampleContext ''HedgematicMSP''
           (exampleContract cmState_TRADING ''DigiBank'' ''DigiBankMSP''))
        ''MagnetoCorp'' 1001 ''MagnetoCorp'' ''MagnetoCorpMSP''
       = Inl (TypeError ''getmaterial'')"
  by (simp add: signContract_TypeError isSigned_def getOwnerMSP_def getMSPID_def
      exampleContract_def exampleContext_def cmState_SIGNED_def)

subsection \<open>C2: the key under which issue stores the contract\<close>

text \<open>
  C2 says that \<open>issue(I, N, T, A, R)\<close> stores the entity under the key of \<open>I\<close> and
  \<open>N\<close>, so that a read of that key returns it. The constructor builds the key from
  \<open>obj.issuer\<close> and \<open>obj.number\<close>, and the object of \<open>createInstance\<close> has a property
  \<open>materialNumber\<close> but none named \<open>number\<close>: the key parts are the issuer and
  \<open>undefined\<close>. In scenario A, on a host that accepts every attribute but the empty
  string, the entity is stored under that key, and the read of the key of MagnetoCorp and
  1001, as \<open>selectContract\<close> does it, finds nothing; on a host that refuses
  \<open>undefined\<close> as an attribute, \<open>issue\<close> itself fails.
\<close>

theorem issue_stores_under_issuer_and_undefined:
  "key (createInstance (Str ''MagnetoCorp'') (Num 1001) (Str ''Coal'') (Str ''2024-01-01'')
          (Num 5000000))
     = makeKey [Str ''MagnetoCorp'', Undefined]
   \<and> worldState
       (invoke (emptyContext ''MagnetoCorpMSP'' (\<lambda>a. a \<noteq> Str []))
          (Issue ''MagnetoCorpMSP'' ''MagnetoCorp'' 1001 ''Coal'' ''2024-01-01'' (Num 5000000)))
     = [(listName, makeKey [Str ''MagnetoCorp'', Undefined]) \<mapsto>
          exampleContract cmState_ISSUED ''MagnetoCorp'' ''MagnetoCorpMSP''
            \<lparr>key := makeKey [Str ''MagnetoCorp'', Undefined]\<rparr>]
   \<and> getMaterialContract
       (invoke (emptyContext ''MagnetoCorpMSP'' (\<lambda>a. a \<noteq> Str []))
          (Issue ''MagnetoCorpMSP'' ''MagnetoCorp'' 1001 ''Coal'' ''2024-01-01'' (Num 5000000)))
       (makeKey [Str ''MagnetoCorp'', Num 1001])
     = Inl NotFound
   \<and> selectContract
       (invoke (emptyContext ''MagnetoCorpMSP'' (\<lambda>a. a \<noteq> Str []))
          (Issue ''MagnetoCorpMSP'' ''MagnetoCorp'' 1001 ''Coal'' ''2024-01-01'' (Num 5000000)))
       ''MagnetoCorp'' 1001 ''MagnetoCorp'' ''DigiBank''
     = Inl NotFound
   \<and> issue (emptyContext ''MagnetoCorpMSP'' (\<lambda>a. a \<noteq> Str [] \<and> a \<noteq> Undefined))
       ''MagnetoCorp'' 1001 ''Coal'' ''2024-01-01'' (Num 5000000)
     = Inl InvalidKeyAttribute"
proof -
  let ?ctx = "emptyContext ''MagnetoCorpMSP'' (\<lambda>a. a \<noteq> Str [])"
  have c: "?ctx\<lparr>clientMSPID := ''MagnetoCorpMSP''\<rparr> = ?ctx"
    by (simp add: emptyContext_def)
  have 1: "key (createInstance (Str ''MagnetoCorp'') (Num 1001) (Str ''Coal'')
                  (Str ''2024-01-01'') (Num 5000000)) = makeKey [Str ''MagnetoCorp'', Undefined]"
    by (simp add: createInstance_fields makeKey_def)
  have 2: "invoke ?ctx
             (Issue ''MagnetoCorpMSP'' ''MagnetoCorp'' 1001 ''Coal'' ''2024-01-01'' (Num 5000000))
           = ?ctx\<lparr>worldState := [(listName, makeKey [Str ''MagnetoCorp'', Undefined]) \<mapsto>
                exampleContract cmState_ISSUED ''MagnetoCorp'' ''MagnetoCorpMSP''
                  \<lparr>key := makeKey [Str ''MagnetoCorp'', Undefined]\<rparr>]\<rparr>"
    by (simp add: c issue_MagnetoCorp_1001 makeKey_def)
  have 3: "issue (emptyContext ''MagnetoCorpMSP'' (\<lambda>a. a \<noteq> Str [] \<and> a \<noteq> Undefined))
             ''MagnetoCorp'' 1001 ''Coal'' ''2024-01-01'' (Num 5000000) = Inl InvalidKeyAttribute"
    by (simp add: issue_unfold addState_def CompositeKey_build_def emptyContext_def)
  have 4: "getState (?ctx\<lparr>worldState := [(listName, makeKey [Str ''MagnetoCorp'', Undefined]) \<mapsto>
                exampleContract cmState_ISSUED ''MagnetoCorp'' ''MagnetoCorpMSP''
                  \<lparr>key := makeKey [Str ''MagnetoCorp'', Undefined]\<rparr>]\<rparr>)
             (makeKey [Str ''MagnetoCorp'', Num 1001]) = Inl NotFound"
    by (simp add: getState_def CompositeKey_build_def emptyContext_def makeKey_def)
  have 5: "worldState (?ctx\<lparr>worldState := w\<rparr>) = w" for w
    by simp
  show ?thesis
    unfolding 2
    by (intro conjI) (simp_all only: 1 3 4 5 getMaterialContract_def selectContract_def
        callWithKey_getMaterialContract Let_def sum.case)
qed

end
